theory Spec2Isabelle
  imports Complex_Main "HOL-Library.Sublist"
begin

section \<open>The radar web server of main.py\<close>

text \<open>
  The program is one MicroPython module. Two coroutines run on one cooperative event
  loop: \<open>sensor_task\<close> polls the radar driver and republishes \<open>last_targets\<close>, and
  \<open>handle_client\<close> answers one HTTP connection. Control changes hands only at an
  \<open>await\<close>, so the code between two suspension points is one indivisible step.

  Numbers: the driver's distance and speed are integers; the angle and the three
  published fields are floats. The theory computes with exact rationals in their
  place. That is an idealisation of the arithmetic, not a model of it: the device
  rounds a binary float, so at a decimal tie (a distance of 5 or 1015, an angle of
  0.35) the published digit depends on the float format and on the library's
  \<open>round\<close>, and a negative zero or an exponent form has no counterpart here. The
  theorems below do not depend on which value a field gets: they are about which
  slots are published, in which order, when the snapshot is replaced, and how
  requests are routed and answered. The sample readings that illustrate them are
  not at a tie.
\<close>

subsection \<open>Exceptions and effects\<close>

text \<open>
  An instance of Python's \<open>Exception\<close>, carrying the text that \<open>str(e)\<close> gives: what a
  failing read, write or close raises, and what \<open>except Exception\<close> catches. A keyboard
  interrupt or the cancellation of a task is not an \<open>Exception\<close> and is not modelled.
\<close>

datatype py_exception = PyException string

text \<open>
  A piece of code acts on a state and either returns a value or raises:
  \<open>Inl e\<close> is the raised exception, \<open>Inr v\<close> the value returned.
\<close>

type_synonym ('s, 'a) io = "'s \<Rightarrow> (py_exception + 'a) \<times> 's"

definition ret :: "'a \<Rightarrow> ('s, 'a) io" where
  "ret v = (\<lambda>s. (Inr v, s))"

definition raise :: "py_exception \<Rightarrow> ('s, 'a) io" where
  "raise e = (\<lambda>s. (Inl e, s))"

text \<open>Sequencing: the second statement runs only when the first did not raise.\<close>

definition bind :: "('s, 'a) io \<Rightarrow> ('a \<Rightarrow> ('s, 'b) io) \<Rightarrow> ('s, 'b) io" where
  "bind m f = (\<lambda>s. case m s of (Inl e, s') \<Rightarrow> (Inl e, s') | (Inr v, s') \<Rightarrow> f v s')"

text \<open>\<open>try: body / except Exception as e: handler e\<close>\<close>

definition try_except :: "('s, 'a) io \<Rightarrow> (py_exception \<Rightarrow> ('s, 'a) io) \<Rightarrow> ('s, 'a) io" where
  "try_except body handler =
     (\<lambda>s. case body s of (Inl e, s') \<Rightarrow> handler e s' | (Inr v, s') \<Rightarrow> (Inr v, s'))"

text \<open>
  \<open>try: body / finally: cleanup\<close>: the cleanup runs whatever the body did; an
  exception of the cleanup replaces the outcome of the body.
\<close>

definition try_finally :: "('s, 'a) io \<Rightarrow> ('s, unit) io \<Rightarrow> ('s, 'a) io" where
  "try_finally body cleanup =
     (\<lambda>s. case body s of (r, s') \<Rightarrow>
        (case cleanup s' of (Inl e, s'') \<Rightarrow> (Inl e, s'') | (Inr _, s'') \<Rightarrow> (r, s'')))"

subsection \<open>Data model\<close>

text \<open>One slot of \<open>radar.targets\<close>, as the driver delivers it.\<close>

record target_reading =
  distance :: int
  angle :: rat
  speed :: int

text \<open>
  A published target is the dict \<open>{"range": .., "angle": .., "speed": ..}\<close>: its keys in
  insertion order, each with a float.
\<close>

type_synonym display_target = "(string \<times> rat) list"

text \<open>
  The module's globals that the two tasks touch, and the lines printed so far:
  \<open>HTML\<close> is the page literal of lines 64 to 258, which no function assigns;
  \<open>radar_targets\<close> is the attribute \<open>radar.targets\<close>.
\<close>

record module_state =
  HTML :: string
  last_targets :: "display_target list"
  radar_targets :: "target_reading list"
  console :: "string list"

text \<open>
  Module initialisation, once the network is up: \<open>ip\<close> is \<open>wlan.ifconfig()[0]\<close>,
  \<open>page\<close> the HTML literal, \<open>ts0\<close> the target list of the freshly built driver.
\<close>

definition module_init :: "string \<Rightarrow> string \<Rightarrow> target_reading list \<Rightarrow> module_state" where
  "module_init ip page ts0 =
     \<lparr>HTML = page, last_targets = [], radar_targets = ts0,
      console = [''Connected to WiFi, IP: '' @ ip]\<rparr>"

definition print :: "string \<Rightarrow> (module_state, unit) io" where
  "print line = (\<lambda>m. (Inr (), m\<lparr>console := console m @ [line]\<rparr>))"

text \<open>
  \<open>await asyncio.sleep(secs)\<close> suspends the task and changes nothing itself; what other
  tasks do meanwhile are steps of their own (see \<open>scheduler\<close>).
\<close>

definition asyncio_sleep :: "rat \<Rightarrow> ('s, unit) io" where
  "asyncio_sleep secs = ret ()"

subsection \<open>The per-target transform\<close>

text \<open>Rounding to the nearest integer, a tie going to the even neighbour.\<close>

definition round_half_even :: "rat \<Rightarrow> int" where
  "round_half_even x =
     (let f = \<lfloor>x\<rfloor>; d = x - of_int f
      in if d < 1 / 2 then f
         else if 1 / 2 < d then f + 1
         else if even f then f else f + 1)"

text \<open>
  \<open>round(x, ndigits)\<close> in exact arithmetic: scale, round, scale back. On the device
  the argument and the result are binary floats, and the two can differ by one unit
  in the last place at a decimal tie.
\<close>

definition py_round :: "rat \<Rightarrow> nat \<Rightarrow> rat" where
  "py_round x ndigits = of_int (round_half_even (x * 10 ^ ndigits)) / 10 ^ ndigits"

text \<open>The dict built for one target in \<open>sensor_task\<close> (lines 43 to 47).\<close>

definition to_display :: "target_reading \<Rightarrow> display_target" where
  "to_display t =
     [(''range'', py_round (of_int (distance t) / 1000) 2),
      (''angle'', py_round (angle t) 1),
      (''speed'', py_round (of_int (speed t) / 100) 2)]"

text \<open>
  The list comprehension of lines 42 to 49, as the loop it runs: the slots in order,
  a slot kept when its distance is positive.
\<close>

fun rebuild :: "target_reading list \<Rightarrow> display_target list" where
  "rebuild [] = []"
| "rebuild (t # ts) = (if distance t > 0 then to_display t # rebuild ts else rebuild ts)"

subsection \<open>The sensor task\<close>

text \<open>
  The driver is an external library. One call of \<open>radar.update()\<close> is given by what it
  returns and by the target list it leaves in \<open>radar.targets\<close>.
\<close>

type_synonym driver_update = "bool \<times> target_reading list"

definition radar_update :: "driver_update \<Rightarrow> (module_state, bool) io" where
  "radar_update u = (\<lambda>m. (Inr (fst u), m\<lparr>radar_targets := snd u\<rparr>))"

text \<open>One turn of the loop of \<open>sensor_task\<close>, up to and including its sleep.\<close>

definition sensor_cycle :: "driver_update \<Rightarrow> (module_state, unit) io" where
  "sensor_cycle u =
     bind (radar_update u) (\<lambda>fresh.
     bind (if fresh
           then (\<lambda>m. (Inr (), m\<lparr>last_targets := rebuild (radar_targets m)\<rparr>))
           else ret ()) (\<lambda>_.
     asyncio_sleep (1 / 10)))"

text \<open>
  \<open>while True\<close>: the task never returns by itself; it runs one turn for each answer
  of the driver.
\<close>

fun sensor_task :: "driver_update list \<Rightarrow> (module_state, unit) io" where
  "sensor_task [] = ret ()"
| "sensor_task (u # us) = bind (sensor_cycle u) (\<lambda>_. sensor_task us)"

subsection \<open>Calibration\<close>

definition calibrate :: "(module_state, unit) io" where
  "calibrate =
     bind (print ''Calibration started...'') (\<lambda>_.
     bind (\<lambda>m. (Inr (), m\<lparr>radar_targets := []\<rparr>)) (\<lambda>_.
     bind (asyncio_sleep (2 / 10)) (\<lambda>_.
     print ''Calibration complete.'')))"

subsection \<open>JSON\<close>

text \<open>
  \<open>json.dumps\<close> on the values this program gives it: floats, lists, and dicts with
  plain keys, with the separators \<open>", "\<close> and \<open>": "\<close>.
\<close>

datatype json = JFloat rat | JArray "json list" | JObject "(string \<times> json) list"

definition digit :: "nat \<Rightarrow> char" where
  "digit d = ''0123456789'' ! d"

fun digits :: "nat \<Rightarrow> string" where
  "digits n = (if n < 10 then [digit n] else digits (n div 10) @ [digit (n mod 10)])"

text \<open>
  The text of a number with at most two fractional digits, as every published value
  has: the integer part, a point, and the fraction without a trailing zero but with
  at least one digit. The encoder prints a float this way when it is not a negative
  zero and is small enough not to need an exponent; those two forms are not covered.
\<close>

definition float_repr :: "rat \<Rightarrow> string" where
  "float_repr q =
     (let h = nat \<lfloor>\<bar>q\<bar> * 100\<rfloor>; cents = h mod 100
      in (if q < 0 then ''-'' else '''') @ digits (h div 100) @ ''.'' @
         (if cents mod 10 = 0 then [digit (cents div 10)]
          else [digit (cents div 10), digit (cents mod 10)]))"

fun join :: "string \<Rightarrow> string list \<Rightarrow> string" where
  "join sep [] = []"
| "join sep [x] = x"
| "join sep (x # y # ys) = x @ sep @ join sep (y # ys)"

definition quoted :: "string \<Rightarrow> string" where
  "quoted k = [CHR 0x22] @ k @ [CHR 0x22]"

fun json_dumps :: "json \<Rightarrow> string" where
  "json_dumps (JFloat q) = float_repr q"
| "json_dumps (JArray xs) = ''['' @ join '', '' (map json_dumps xs) @ '']''"
| "json_dumps (JObject kvs) =
     ''{'' @ join '', '' (map (\<lambda>kv. quoted (fst kv) @ '': '' @ json_dumps (snd kv)) kvs) @ ''}''"

text \<open>The value \<open>{'targets': last_targets}\<close>.\<close>

definition targets_json :: "display_target list \<Rightarrow> json" where
  "targets_json ts =
     JObject [(''targets'', JArray (map (\<lambda>d. JObject (map (\<lambda>kv. (fst kv, JFloat (snd kv))) d)) ts))]"

subsection \<open>The connection handler\<close>

text \<open>\<open>pat in buf\<close> on bytes: \<open>pat\<close> occurs somewhere in \<open>buf\<close>.\<close>

fun bytes_in :: "string \<Rightarrow> string \<Rightarrow> bool" where
  "bytes_in pat [] = (pat = [])"
| "bytes_in pat (b # bs) = (prefix pat (b # bs) \<or> bytes_in pat bs)"

definition CRLF :: string where
  "CRLF = [CHR 0x0D, CHR 0x0A]"

definition status_line :: string where
  "status_line = ''HTTP/1.0 200 OK''"

definition json_response :: "display_target list \<Rightarrow> string" where
  "json_response ts =
     status_line @ CRLF @ ''Content-Type: application/json'' @ CRLF @ CRLF @
     json_dumps (targets_json ts)"

definition calibrated_response :: string where
  "calibrated_response =
     status_line @ CRLF @ ''Content-Type: text/plain'' @ CRLF @ CRLF @ ''Calibrated.''"

definition html_response :: "string \<Rightarrow> string" where
  "html_response page =
     status_line @ CRLF @ ''Content-Type: text/html'' @ CRLF @ CRLF @ page"

text \<open>
  The \<open>if\<close>/\<open>elif\<close>/\<open>else\<close> of lines 266 to 272: from the request buffer to the
  response string, calibrating on the way in the second branch.
\<close>

definition route :: "string \<Rightarrow> (module_state, string) io" where
  "route request =
     (if bytes_in ''GET /data'' request then
        (\<lambda>m. (Inr (json_response (last_targets m)), m))
      else if bytes_in ''GET /calibrate'' request then
        bind calibrate (\<lambda>_. ret calibrated_response)
      else
        (\<lambda>m. (Inr (html_response (HTML m)), m)))"

text \<open>
  The two ends of one connection. How the peer behaves is fixed by \<open>inbound\<close> (the
  bytes that the read finds, or the exception it raises) and by the exceptions, if
  any, that writing and closing raise.
\<close>

record peer =
  inbound :: "py_exception + string"
  awrite_fault :: "py_exception option"
  aclose_fault :: "py_exception option"

text \<open>The calls made on the writer, in order, each recorded as it is made.\<close>

datatype writer_call = Awrite string | Aclose

type_synonym handler_state = "module_state \<times> writer_call list"

definition on_module :: "(module_state, 'a) io \<Rightarrow> (handler_state, 'a) io" where
  "on_module p = (\<lambda>(m, w). case p m of (r, m') \<Rightarrow> (r, (m', w)))"

text \<open>\<open>await reader.read(n)\<close>: at most \<open>n\<close> bytes.\<close>

definition reader_read :: "peer \<Rightarrow> nat \<Rightarrow> (handler_state, string) io" where
  "reader_read c n = (case inbound c of Inl e \<Rightarrow> raise e | Inr bs \<Rightarrow> ret (take n bs))"

definition writer_awrite :: "peer \<Rightarrow> string \<Rightarrow> (handler_state, unit) io" where
  "writer_awrite c buf =
     (\<lambda>(m, w). (case awrite_fault c of Some e \<Rightarrow> raise e | None \<Rightarrow> ret ())
                 (m, w @ [Awrite buf]))"

definition writer_aclose :: "peer \<Rightarrow> (handler_state, unit) io" where
  "writer_aclose c =
     (\<lambda>(m, w). (case aclose_fault c of Some e \<Rightarrow> raise e | None \<Rightarrow> ret ())
                 (m, w @ [Aclose]))"

text \<open>The \<open>except\<close> block: \<open>print("Client error:", e)\<close>.\<close>

definition client_error :: "py_exception \<Rightarrow> (module_state, unit) io" where
  "client_error e = (case e of PyException msg \<Rightarrow> print (''Client error: '' @ msg))"

definition handle_client :: "peer \<Rightarrow> (handler_state, unit) io" where
  "handle_client c =
     try_finally
       (try_except
          (bind (reader_read c 1024) (\<lambda>request.
           bind (on_module (route request)) (\<lambda>response.
           writer_awrite c response)))
          (\<lambda>e. on_module (client_error e)))
       (writer_aclose c)"

subsection \<open>The event loop\<close>

text \<open>
  What the loop of \<open>main\<close> interleaves: a turn of the sensor task, the start of
  \<open>web_server\<close>, or a connection accepted by the server and handled on a fresh writer.
  An exception that leaves a handler ends that task only.

  A handler reads and writes the module's globals only in the step that follows its
  read; the steps after its later suspension points print and use the writer. A turn
  of the sensor task does not print, so it leaves the same state whether it runs
  inside such a suspension or after the handler (see \<open>sensor_cycle_print\<close>), and
  the scheduler runs each handler as one step.
\<close>

datatype event = Poll driver_update | Listen | Accept peer

definition web_server_start :: "(module_state, unit) io" where
  "web_server_start = print ''Web server running on port 80''"

definition serve :: "peer \<Rightarrow> module_state \<Rightarrow> writer_call list \<times> module_state" where
  "serve c m = (case handle_client c (m, []) of (r, (m', w)) \<Rightarrow> (w, m'))"

fun scheduler :: "event list \<Rightarrow> module_state \<Rightarrow> writer_call list list \<times> module_state" where
  "scheduler [] m = ([], m)"
| "scheduler (Poll u # es) m = scheduler es (snd (sensor_cycle u m))"
| "scheduler (Listen # es) m = scheduler es (snd (web_server_start m))"
| "scheduler (Accept c # es) m =
     (case serve c m of (w, m') \<Rightarrow>
        (case scheduler es m' of (ws, m'') \<Rightarrow> (w # ws, m'')))"

text \<open>A turn of the sensor task in which the driver reports new data.\<close>

definition fresh_poll :: "event \<Rightarrow> bool" where
  "fresh_poll e = (case e of Poll u \<Rightarrow> fst u | Listen \<Rightarrow> False | Accept c \<Rightarrow> False)"

text \<open>Any turn of the sensor task.\<close>

definition is_poll :: "event \<Rightarrow> bool" where
  "is_poll e = (case e of Poll u \<Rightarrow> True | Listen \<Rightarrow> False | Accept c \<Rightarrow> False)"

text \<open>
  \<open>calibrate\<close> with its suspension opened: \<open>es\<close> are the events that the loop runs
  while the coroutine sleeps.
\<close>

definition calibrate_yielding :: "event list \<Rightarrow> (module_state, unit) io" where
  "calibrate_yielding es =
     bind (print ''Calibration started...'') (\<lambda>_.
     bind (\<lambda>m. (Inr (), m\<lparr>radar_targets := []\<rparr>)) (\<lambda>_.
     bind (\<lambda>m. (Inr (), snd (scheduler es m))) (\<lambda>_.
     print ''Calibration complete.'')))"

subsection \<open>Sample inputs\<close>

definition demo_reading :: target_reading where
  "demo_reading = \<lparr>distance = 4000, angle = 1234 / 100, speed = 250\<rparr>"

definition demo_state :: module_state where
  "demo_state =
     \<lparr>HTML = ''<html>radar</html>'',
      last_targets = [[(''range'', 4), (''angle'', 123 / 10), (''speed'', 5 / 2)]],
      radar_targets = [demo_reading],
      console = []\<rparr>"

definition data_request :: string where
  "data_request = ''GET /data HTTP/1.0'' @ CRLF @ CRLF"

definition calibrate_request :: string where
  "calibrate_request = ''GET /calibrate HTTP/1.0'' @ CRLF @ CRLF"

definition page_request :: string where
  "page_request = ''GET / HTTP/1.0'' @ CRLF @ CRLF"

text \<open>Two requests that arrive in one read, and requests that carry a pattern in a header.\<close>

definition pipelined_request :: string where
  "pipelined_request = calibrate_request @ data_request"

definition referer_request :: string where
  "referer_request = ''POST /log HTTP/1.0'' @ CRLF @ ''Referer: GET /data'' @ CRLF @ CRLF"

definition both_request :: string where
  "both_request = ''GET /data HTTP/1.0'' @ CRLF @ ''X-Next: GET /calibrate'' @ CRLF @ CRLF"

text \<open>
  A client that sends \<open>bs\<close> and takes the answer, one that resets before sending, and
  one that sends \<open>bs\<close> and is gone when the answer is written.
\<close>

definition sending :: "string \<Rightarrow> peer" where
  "sending bs = \<lparr>inbound = Inr bs, awrite_fault = None, aclose_fault = None\<rparr>"

definition resetting :: peer where
  "resetting =
     \<lparr>inbound = Inl (PyException ''ECONNRESET''), awrite_fault = None, aclose_fault = None\<rparr>"

definition broken_pipe :: "string \<Rightarrow> peer" where
  "broken_pipe bs =
     \<lparr>inbound = Inr bs, awrite_fault = Some (PyException ''EPIPE''), aclose_fault = None\<rparr>"

text \<open>The whole response to \<open>GET /data\<close> when the target list is empty.\<close>

definition empty_targets_response :: string where
  "empty_targets_response =
     status_line @ CRLF @ ''Content-Type: application/json'' @ CRLF @ CRLF @
     ''{'' @ quoted ''targets'' @ '': []}''"

section \<open>Properties\<close>

subsection \<open>Auxiliary facts\<close>

lemma bytes_in_iff: "bytes_in pat buf \<longleftrightarrow> (\<exists>pre post. buf = pre @ pat @ post)"
proof (induction buf)
  case Nil
  then show ?case by auto
next
  case (Cons b bs)
  show ?case
  proof
    assume "bytes_in pat (b # bs)"
    then consider "prefix pat (b # bs)" | "bytes_in pat bs" by auto
    then show "\<exists>pre post. b # bs = pre @ pat @ post"
    proof cases
      case 1
      then obtain post where "b # bs = pat @ post" by (auto simp: prefix_def)
      then have "b # bs = [] @ pat @ post" by simp
      then show ?thesis by blast
    next
      case 2
      with Cons.IH obtain pre post where "bs = pre @ pat @ post" by blast
      then have "b # bs = (b # pre) @ pat @ post" by simp
      then show ?thesis by blast
    qed
  next
    assume "\<exists>pre post. b # bs = pre @ pat @ post"
    then obtain pre post where eq: "b # bs = pre @ pat @ post" by blast
    show "bytes_in pat (b # bs)"
    proof (cases pre)
      case Nil
      with eq have "prefix pat (b # bs)" by (simp add: prefix_def)
      then show ?thesis by simp
    next
      case (Cons p pre')
      with eq have "bs = pre' @ pat @ post" by simp
      with Cons.IH have "bytes_in pat bs" by blast
      then show ?thesis by simp
    qed
  qed
qed

lemma calibrate_eq:
  "calibrate m =
     (Inr (), m\<lparr>radar_targets := [],
                console := console m @ [''Calibration started...'', ''Calibration complete.'']\<rparr>)"
  by (simp add: calibrate_def bind_def print_def asyncio_sleep_def ret_def)

lemma route_data:
  "bytes_in ''GET /data'' request \<Longrightarrow> route request m = (Inr (json_response (last_targets m)), m)"
  by (simp add: route_def)

lemma route_calibrate:
  "\<not> bytes_in ''GET /data'' request \<Longrightarrow> bytes_in ''GET /calibrate'' request \<Longrightarrow>
   route request m = (Inr calibrated_response, snd (calibrate m))"
  by (simp add: route_def bind_def calibrate_eq ret_def)

lemma route_html:
  "\<not> bytes_in ''GET /data'' request \<Longrightarrow> \<not> bytes_in ''GET /calibrate'' request \<Longrightarrow>
   route request m = (Inr (html_response (HTML m)), m)"
  by (simp add: route_def)

lemma route_returns: "\<exists>resp m'. route request m = (Inr resp, m')"
  using route_data route_calibrate route_html by blast

lemma route_frame:
  "last_targets (snd (route request m)) = last_targets m"
  "HTML (snd (route request m)) = HTML m"
  by (simp_all add: route_def bind_def calibrate_eq ret_def)

lemma client_error_frame:
  "last_targets (snd (client_error e m)) = last_targets m"
  "HTML (snd (client_error e m)) = HTML m"
  "radar_targets (snd (client_error e m)) = radar_targets m"
  by (simp_all add: client_error_def print_def split: py_exception.splits)

lemma handle_client_read_fault:
  "inbound c = Inl e \<Longrightarrow>
   handle_client c (m, w) =
     (case aclose_fault c of Some x \<Rightarrow> Inl x | None \<Rightarrow> Inr (),
      snd (client_error e m), w @ [Aclose])"
  by (simp add: handle_client_def try_finally_def try_except_def bind_def reader_read_def
      writer_aclose_def on_module_def client_error_def print_def raise_def ret_def
      split: py_exception.splits option.splits)

lemma handle_client_read_ok:
  "inbound c = Inr bs \<Longrightarrow> route (take 1024 bs) m = (Inr resp, m') \<Longrightarrow>
   handle_client c (m, w) =
     (case aclose_fault c of Some x \<Rightarrow> Inl x | None \<Rightarrow> Inr (),
      (case awrite_fault c of Some e \<Rightarrow> snd (client_error e m') | None \<Rightarrow> m'),
      w @ [Awrite resp, Aclose])"
  by (simp add: handle_client_def try_finally_def try_except_def bind_def reader_read_def
      writer_awrite_def writer_aclose_def on_module_def client_error_def print_def
      raise_def ret_def
      split: py_exception.splits option.splits)

lemma handle_client_outcome:
  "fst (handle_client c s) = (case aclose_fault c of Some x \<Rightarrow> Inl x | None \<Rightarrow> Inr ())"
proof (cases s)
  case (Pair m w)
  show ?thesis
  proof (cases "inbound c")
    case (Inl e)
    then show ?thesis by (simp add: Pair handle_client_read_fault)
  next
    case (Inr bs)
    obtain resp m' where "route (take 1024 bs) m = (Inr resp, m')"
      using route_returns by blast
    with Inr show ?thesis by (simp add: Pair handle_client_read_ok)
  qed
qed

lemma handle_client_frame:
  "last_targets (fst (snd (handle_client c (m, w)))) = last_targets m \<and>
   HTML (fst (snd (handle_client c (m, w)))) = HTML m"
proof (cases "inbound c")
  case (Inl e)
  then show ?thesis by (simp add: handle_client_read_fault client_error_frame)
next
  case (Inr bs)
  obtain resp m' where r: "route (take 1024 bs) m = (Inr resp, m')"
    using route_returns by blast
  have "last_targets m' = last_targets m" "HTML m' = HTML m"
    using route_frame [of "take 1024 bs" m] r by simp_all
  with Inr r show ?thesis
    by (simp add: handle_client_read_ok client_error_frame split: option.splits)
qed

lemma serve_frame:
  "last_targets (snd (serve c m)) = last_targets m"
  "HTML (snd (serve c m)) = HTML m"
  using handle_client_frame [of c m "[]"]
  by (simp_all add: serve_def split_beta)

lemma sensor_cycle_eq:
  "sensor_cycle u m =
     (Inr (), if fst u then m\<lparr>radar_targets := snd u, last_targets := rebuild (snd u)\<rparr>
              else m\<lparr>radar_targets := snd u\<rparr>)"
  by (simp add: sensor_cycle_def bind_def radar_update_def asyncio_sleep_def ret_def)

lemma scheduler_stale:
  "\<forall>e\<in>set es. \<not> fresh_poll e \<Longrightarrow>
   last_targets (snd (scheduler es m)) = last_targets m \<and> HTML (snd (scheduler es m)) = HTML m"
proof (induction es arbitrary: m)
  case Nil
  then show ?case by simp
next
  case (Cons e es)
  then have rest: "\<forall>e\<in>set es. \<not> fresh_poll e" by simp
  show ?case
  proof (cases e)
    case (Poll u)
    with Cons.prems have "\<not> fst u" by (simp add: fresh_poll_def)
    then show ?thesis
      using Cons.IH [OF rest, of "snd (sensor_cycle u m)"] Poll
      by (simp add: sensor_cycle_eq)
  next
    case Listen
    then show ?thesis
      using Cons.IH [OF rest, of "snd (web_server_start m)"]
      by (simp add: web_server_start_def print_def)
  next
    case (Accept c)
    show ?thesis
      using Cons.IH [OF rest, of "snd (serve c m)"] Accept serve_frame [of c m]
      by (simp add: split_beta)
  qed
qed

lemma serve_response:
  "inbound c = Inr bs \<Longrightarrow> route (take 1024 bs) m = (Inr resp, m') \<Longrightarrow>
   fst (serve c m) = [Awrite resp, Aclose]"
  by (simp add: serve_def handle_client_read_ok)

lemma rebuild_filter: "rebuild ts = map to_display (filter (\<lambda>t. 0 < distance t) ts)"
  by (induction ts) auto

lemma filter_by_slot:
  "filter P xs = map ((!) xs) (filter (\<lambda>i. P (xs ! i)) [0..<length xs])"
proof -
  have "filter P xs = filter P (map ((!) xs) [0..<length xs])"
    by (simp add: map_nth)
  also have "\<dots> = map ((!) xs) (filter (P \<circ> (!) xs) [0..<length xs])"
    by (rule filter_map)
  finally show ?thesis by (simp add: comp_def)
qed

lemma rebuild_by_slot:
  "rebuild ts =
     map (\<lambda>i. to_display (ts ! i)) (filter (\<lambda>i. 0 < distance (ts ! i)) [0..<length ts])"
proof -
  have "rebuild ts = map to_display (filter (\<lambda>t. 0 < distance t) ts)"
    by (rule rebuild_filter)
  also have "\<dots> = map to_display
      (map ((!) ts) (filter (\<lambda>i. 0 < distance (ts ! i)) [0..<length ts]))"
    by (subst filter_by_slot) (rule refl)
  finally show ?thesis by (simp add: comp_def)
qed

lemma rebuild_subseq: "subseq (rebuild ts) (map to_display ts)"
  by (induction ts) auto

lemma sensor_task_quiet:
  "\<forall>v \<in> set us. \<not> fst v \<Longrightarrow> last_targets (snd (sensor_task us m)) = last_targets m"
proof (induction us arbitrary: m)
  case Nil
  show ?case by (simp add: ret_def)
next
  case (Cons v vs)
  then have "\<not> fst v" and rest: "\<forall>v \<in> set vs. \<not> fst v" by simp_all
  have "last_targets (snd (sensor_task vs (snd (sensor_cycle v m)))) =
      last_targets (snd (sensor_cycle v m))"
    by (rule Cons.IH [OF rest])
  with \<open>\<not> fst v\<close> show ?case
    by (simp add: bind_def sensor_cycle_eq)
qed

lemma status_prefix:
  "prefix status_line (json_response ts)"
  "prefix status_line calibrated_response"
  "prefix status_line (html_response page)"
  by (simp_all add: json_response_def calibrated_response_def html_response_def)

lemma responses_distinct:
  "json_response ts \<noteq> calibrated_response"
  "json_response ts \<noteq> html_response page"
  "calibrated_response \<noteq> html_response page"
  by (simp_all add: json_response_def calibrated_response_def html_response_def
      status_line_def CRLF_def)

lemma sample_requests:
  "bytes_in ''GET /data'' data_request"
  "\<not> bytes_in ''GET /data'' calibrate_request"
  "bytes_in ''GET /calibrate'' calibrate_request"
  "\<not> bytes_in ''GET /data'' page_request"
  "\<not> bytes_in ''GET /calibrate'' page_request"
  "\<not> bytes_in ''GET /data'' []"
  "\<not> bytes_in ''GET /calibrate'' []"
  by (simp_all add: data_request_def calibrate_request_def page_request_def CRLF_def)

lemma demo_state_fields:
  "HTML demo_state = ''<html>radar</html>''"
  "last_targets demo_state = [[(''range'', 4), (''angle'', 123 / 10), (''speed'', 5 / 2)]]"
  "radar_targets demo_state = [demo_reading]"
  "console demo_state = []"
  by (simp_all add: demo_state_def)

lemma route_response_cong:
  "last_targets m1 = last_targets m2 \<Longrightarrow> HTML m1 = HTML m2 \<Longrightarrow>
   fst (route request m1) = fst (route request m2)"
  by (simp add: route_def bind_def calibrate_eq ret_def)

lemma serve_calls_cong:
  assumes "last_targets m1 = last_targets m2" and "HTML m1 = HTML m2"
  shows "fst (serve c m1) = fst (serve c m2)"
proof (cases "inbound c")
  case (Inl e)
  then show ?thesis by (simp add: serve_def handle_client_read_fault)
next
  case (Inr bs)
  obtain r1 n1 where 1: "route (take 1024 bs) m1 = (Inr r1, n1)"
    using route_returns by blast
  obtain r2 n2 where 2: "route (take 1024 bs) m2 = (Inr r2, n2)"
    using route_returns by blast
  have "r1 = r2"
    using route_response_cong [OF assms, of "take 1024 bs"] 1 2 by simp
  then show ?thesis
    using serve_response [OF Inr 1] serve_response [OF Inr 2] by simp
qed

lemma empty_json: "json_response [] = empty_targets_response"
  by (simp add: json_response_def empty_targets_response_def targets_json_def)

lemma route_radar:
  "radar_targets m = [] \<Longrightarrow> radar_targets (snd (route request m)) = []"
  by (simp add: route_def bind_def calibrate_eq ret_def)

lemma serve_radar:
  assumes "radar_targets m = []"
  shows "radar_targets (snd (serve c m)) = []"
proof (cases "inbound c")
  case (Inl e)
  then show ?thesis
    using assms by (simp add: serve_def handle_client_read_fault client_error_frame)
next
  case (Inr bs)
  obtain resp m' where r: "route (take 1024 bs) m = (Inr resp, m')"
    using route_returns by blast
  have "radar_targets m' = []"
    using route_radar [OF assms, of "take 1024 bs"] r by simp
  then show ?thesis
    by (simp add: serve_def handle_client_read_ok [OF Inr r] client_error_frame
        split: option.splits)
qed

lemma scheduler_radar:
  "\<forall>e \<in> set es. \<not> is_poll e \<Longrightarrow> radar_targets m = [] \<Longrightarrow>
   radar_targets (snd (scheduler es m)) = []"
proof (induction es arbitrary: m)
  case Nil
  then show ?case by simp
next
  case (Cons e es)
  then have rest: "\<forall>e \<in> set es. \<not> is_poll e" by simp
  show ?case
  proof (cases e)
    case (Poll u)
    with Cons.prems show ?thesis by (simp add: is_poll_def)
  next
    case Listen
    have "radar_targets (snd (web_server_start m)) = []"
      using Cons.prems(2) by (simp add: web_server_start_def print_def)
    then show ?thesis
      using Cons.IH [OF rest] Listen by simp
  next
    case (Accept c)
    have "radar_targets (snd (serve c m)) = []"
      using Cons.prems(2) by (rule serve_radar)
    then show ?thesis
      using Cons.IH [OF rest] Accept by (simp add: split_beta)
  qed
qed

lemma calibrate_yielding_eq:
  "calibrate_yielding es m =
     print ''Calibration complete.''
       (snd (scheduler es (m\<lparr>console := console m @ [''Calibration started...''],
          radar_targets := []\<rparr>)))"
  by (simp add: calibrate_yielding_def bind_def print_def)

lemma calibrate_yielding_nothing: "calibrate_yielding [] = calibrate"
  by (rule ext) (simp add: calibrate_yielding_eq calibrate_eq print_def)

text \<open>
  A turn of the sensor task and a printed line commute: the turn may run before the
  line or after it.
\<close>

lemma sensor_cycle_print:
  "snd (print line (snd (sensor_cycle u m))) = snd (sensor_cycle u (snd (print line m)))"
  by (simp add: sensor_cycle_eq print_def)

subsection \<open>Routing\<close>

text \<open>
  Claim C1, as amended. Every request buffer gets exactly one of three responses. A
  buffer that contains \<open>GET /data\<close> gets the JSON response that carries the current
  snapshot. A buffer that contains \<open>GET /calibrate\<close> and does not contain \<open>GET /data\<close>
  gets the plain-text acknowledgement, and the calibration runs exactly once: the
  driver's target list is cleared and its two lines are printed once. Every other
  buffer, the empty one included, gets the HTML page. All three responses start with
  the status line \<open>HTTP/1.0 200 OK\<close>, they differ from each other, and the handler
  writes the chosen one in a single call before it closes.
\<close>

theorem C1_routing:
  "(bytes_in ''GET /data'' request \<longrightarrow>
      route request m = (Inr (json_response (last_targets m)), m))
   \<and> (\<not> bytes_in ''GET /data'' request \<and> bytes_in ''GET /calibrate'' request \<longrightarrow>
      route request m = (Inr calibrated_response, snd (calibrate m))
      \<and> radar_targets (snd (route request m)) = []
      \<and> console (snd (route request m)) =
          console m @ [''Calibration started...'', ''Calibration complete.''])
   \<and> (\<not> bytes_in ''GET /data'' request \<and> \<not> bytes_in ''GET /calibrate'' request \<longrightarrow>
      route request m = (Inr (html_response (HTML m)), m))
   \<and> route [] m = (Inr (html_response (HTML m)), m)
   \<and> (\<exists>response. fst (route request m) = Inr response \<and> prefix status_line response
        \<and> (\<forall>bs. request = take 1024 bs \<longrightarrow>
              fst (serve (sending bs) m) = [Awrite response, Aclose]))
   \<and> json_response ts \<noteq> calibrated_response
   \<and> json_response ts \<noteq> html_response page
   \<and> calibrated_response \<noteq> html_response page"
proof -
  have data: "bytes_in ''GET /data'' request \<longrightarrow>
      route request m = (Inr (json_response (last_targets m)), m)"
    by (simp add: route_data)
  have cal: "\<not> bytes_in ''GET /data'' request \<and> bytes_in ''GET /calibrate'' request \<longrightarrow>
      route request m = (Inr calibrated_response, snd (calibrate m))
      \<and> radar_targets (snd (route request m)) = []
      \<and> console (snd (route request m)) =
          console m @ [''Calibration started...'', ''Calibration complete.'']"
    by (simp add: route_calibrate calibrate_eq)
  have page: "\<not> bytes_in ''GET /data'' request \<and> \<not> bytes_in ''GET /calibrate'' request \<longrightarrow>
      route request m = (Inr (html_response (HTML m)), m)"
    by (simp add: route_html)
  have empty: "route [] m = (Inr (html_response (HTML m)), m)"
    by (simp add: route_html)
  obtain response m' where r: "route request m = (Inr response, m')"
    using route_returns by blast
  have "response = json_response (last_targets m) \<or> response = calibrated_response
      \<or> response = html_response (HTML m)"
    using r data cal page by auto
  then have st: "prefix status_line response"
    using status_prefix by auto
  have sv: "\<forall>bs. request = take 1024 bs \<longrightarrow>
      fst (serve (sending bs) m) = [Awrite response, Aclose]"
    using r by (auto simp: sending_def intro: serve_response)
  have one: "\<exists>response. fst (route request m) = Inr response \<and> prefix status_line response
        \<and> (\<forall>bs. request = take 1024 bs \<longrightarrow>
              fst (serve (sending bs) m) = [Awrite response, Aclose])"
    using r st sv by auto
  show ?thesis
    by (intro conjI data cal page empty one responses_distinct)
qed

text \<open>
  The three sample requests are routed to the three responses, and the calibration
  request clears the driver's list and prints its two lines.
\<close>

theorem C1_routing_witness:
  "bytes_in ''GET /data'' data_request
   \<and> route data_request demo_state = (Inr (json_response (last_targets demo_state)), demo_state)
   \<and> \<not> bytes_in ''GET /data'' calibrate_request
   \<and> bytes_in ''GET /calibrate'' calibrate_request
   \<and> route calibrate_request demo_state =
       (Inr calibrated_response,
        demo_state\<lparr>radar_targets := [],
          console := [''Calibration started...'', ''Calibration complete.'']\<rparr>)
   \<and> \<not> bytes_in ''GET /data'' page_request
   \<and> \<not> bytes_in ''GET /calibrate'' page_request
   \<and> route page_request demo_state = (Inr (html_response ''<html>radar</html>''), demo_state)
   \<and> data_request = take 1024 data_request
   \<and> fst (serve (sending data_request) demo_state) =
       [Awrite (json_response (last_targets demo_state)), Aclose]"
proof -
  have len: "data_request = take 1024 data_request"
    by (simp add: data_request_def CRLF_def)
  have cal: "snd (calibrate demo_state) =
      demo_state\<lparr>radar_targets := [],
        console := [''Calibration started...'', ''Calibration complete.'']\<rparr>"
    by (simp add: calibrate_eq demo_state_fields)
  from C1_routing [of data_request demo_state "[]" "[]"]
  have a: "route data_request demo_state =
        (Inr (json_response (last_targets demo_state)), demo_state)"
    and s: "fst (serve (sending data_request) demo_state) =
        [Awrite (json_response (last_targets demo_state)), Aclose]"
    using sample_requests(1) len by auto
  from C1_routing [of calibrate_request demo_state "[]" "[]"]
  have b: "route calibrate_request demo_state = (Inr calibrated_response, snd (calibrate demo_state))"
    using sample_requests(2,3) by blast
  from C1_routing [of page_request demo_state "[]" "[]"]
  have c: "route page_request demo_state = (Inr (html_response (HTML demo_state)), demo_state)"
    using sample_requests(4,5) by blast
  show ?thesis
    using a b c s len sample_requests by (simp add: cal demo_state_fields)
qed

text \<open>
  Claim C1 as first stated fails where a buffer holds both patterns: two requests that
  arrive in one read, the calibration first, contain \<open>GET /calibrate\<close>, yet the answer
  is the JSON response and the driver's list is not cleared.
\<close>

theorem C1_counterexample:
  "bytes_in ''GET /calibrate'' pipelined_request
   \<and> route pipelined_request demo_state =
       (Inr (json_response (last_targets demo_state)), demo_state)
   \<and> fst (route pipelined_request demo_state) \<noteq> Inr calibrated_response
   \<and> radar_targets (snd (route pipelined_request demo_state)) \<noteq> []"
proof -
  have c: "bytes_in ''GET /calibrate'' pipelined_request"
    by (simp add: pipelined_request_def calibrate_request_def data_request_def CRLF_def)
  have d: "bytes_in ''GET /data'' pipelined_request"
    by (simp add: pipelined_request_def calibrate_request_def data_request_def CRLF_def)
  have r: "route pipelined_request demo_state =
      (Inr (json_response (last_targets demo_state)), demo_state)"
    using d by (rule route_data)
  show ?thesis
    using c r responses_distinct(1) by (simp add: demo_state_fields)
qed

text \<open>
  Claim C8, as amended. The route is chosen by containment, not by a prefix: it
  depends on the buffer only through the two tests whether \<open>GET /data\<close> and whether
  \<open>GET /calibrate\<close> occur somewhere in it. A buffer in which \<open>GET /data\<close> occurs at
  any position gets the JSON response; one in which only \<open>GET /calibrate\<close> occurs
  gets the acknowledgement; the HTML page is the answer exactly when neither pattern
  occurs anywhere in the buffer.
\<close>

theorem C8_containment_match:
  "(bytes_in ''GET /data'' r1 = bytes_in ''GET /data'' r2
      \<and> bytes_in ''GET /calibrate'' r1 = bytes_in ''GET /calibrate'' r2 \<longrightarrow> route r1 = route r2)
   \<and> ((\<exists>pre post. request = pre @ ''GET /data'' @ post) \<longrightarrow>
        route request m = (Inr (json_response (last_targets m)), m))
   \<and> (\<not> (\<exists>pre post. request = pre @ ''GET /data'' @ post)
        \<and> (\<exists>pre post. request = pre @ ''GET /calibrate'' @ post) \<longrightarrow>
        route request m = (Inr calibrated_response, snd (calibrate m)))
   \<and> (\<not> (\<exists>pre post. request = pre @ ''GET /data'' @ post)
        \<and> \<not> (\<exists>pre post. request = pre @ ''GET /calibrate'' @ post) \<longrightarrow>
        route request m = (Inr (html_response (HTML m)), m))
   \<and> (fst (route request m) = Inr (html_response (HTML m)) \<longrightarrow>
        \<not> (\<exists>pre post. request = pre @ ''GET /data'' @ post)
        \<and> \<not> (\<exists>pre post. request = pre @ ''GET /calibrate'' @ post))"
proof -
  have same: "bytes_in ''GET /data'' r1 = bytes_in ''GET /data'' r2
      \<and> bytes_in ''GET /calibrate'' r1 = bytes_in ''GET /calibrate'' r2 \<longrightarrow> route r1 = route r2"
    by (simp add: route_def)
  have data: "(\<exists>pre post. request = pre @ ''GET /data'' @ post) \<longrightarrow>
        route request m = (Inr (json_response (last_targets m)), m)"
    using route_data [of request m] by (simp only: bytes_in_iff) blast
  have cal: "\<not> (\<exists>pre post. request = pre @ ''GET /data'' @ post)
        \<and> (\<exists>pre post. request = pre @ ''GET /calibrate'' @ post) \<longrightarrow>
        route request m = (Inr calibrated_response, snd (calibrate m))"
    using route_calibrate [of request m] by (simp only: bytes_in_iff) blast
  have page: "\<not> (\<exists>pre post. request = pre @ ''GET /data'' @ post)
        \<and> \<not> (\<exists>pre post. request = pre @ ''GET /calibrate'' @ post) \<longrightarrow>
        route request m = (Inr (html_response (HTML m)), m)"
    using route_html [of request m] by (simp only: bytes_in_iff) blast
  have only: "fst (route request m) = Inr (html_response (HTML m)) \<longrightarrow>
        \<not> (\<exists>pre post. request = pre @ ''GET /data'' @ post)
        \<and> \<not> (\<exists>pre post. request = pre @ ''GET /calibrate'' @ post)"
  proof (intro impI)
    assume h: "fst (route request m) = Inr (html_response (HTML m))"
    have "\<not> bytes_in ''GET /data'' request"
      using h route_data [of request m] responses_distinct(2) by auto
    moreover from this have "\<not> bytes_in ''GET /calibrate'' request"
      using h route_calibrate [of request m] responses_distinct(3) by auto
    ultimately show "\<not> (\<exists>pre post. request = pre @ ''GET /data'' @ post)
        \<and> \<not> (\<exists>pre post. request = pre @ ''GET /calibrate'' @ post)"
      by (simp only: bytes_in_iff) blast
  qed
  show ?thesis
    by (intro conjI same data cal page only)
qed

text \<open>
  A request whose \<open>Referer\<close> header holds \<open>GET /data\<close> is routed like a plain
  \<open>GET /data\<close> request.
\<close>

theorem C8_containment_match_witness:
  "bytes_in ''GET /data'' data_request = bytes_in ''GET /data'' referer_request
   \<and> bytes_in ''GET /calibrate'' data_request = bytes_in ''GET /calibrate'' referer_request
   \<and> route data_request = route referer_request
   \<and> referer_request =
       (''POST /log HTTP/1.0'' @ CRLF @ ''Referer: '') @ ''GET /data'' @ (CRLF @ CRLF)
   \<and> route referer_request demo_state =
       (Inr (json_response (last_targets demo_state)), demo_state)"
proof -
  have a: "bytes_in ''GET /data'' data_request = bytes_in ''GET /data'' referer_request"
    and b: "bytes_in ''GET /calibrate'' data_request = bytes_in ''GET /calibrate'' referer_request"
    by (simp_all add: data_request_def referer_request_def CRLF_def)
  have e: "referer_request =
       (''POST /log HTTP/1.0'' @ CRLF @ ''Referer: '') @ ''GET /data'' @ (CRLF @ CRLF)"
    by (simp add: referer_request_def)
  have same: "route data_request = route referer_request"
    using C8_containment_match [of data_request referer_request referer_request demo_state] a b
    by blast
  have json: "route referer_request demo_state =
       (Inr (json_response (last_targets demo_state)), demo_state)"
    using C8_containment_match [of data_request referer_request referer_request demo_state] e
    by blast
  show ?thesis
    by (intro conjI a b same e json)
qed

text \<open>
  Claim C8 as first stated fails on that request: it starts with neither pattern, and
  it is answered with the JSON response, not with the HTML page.
\<close>

theorem C8_counterexample:
  "\<not> prefix ''GET /data'' referer_request
   \<and> \<not> prefix ''GET /calibrate'' referer_request
   \<and> route referer_request demo_state =
       (Inr (json_response (last_targets demo_state)), demo_state)
   \<and> fst (route referer_request demo_state) \<noteq> Inr (html_response (HTML demo_state))"
proof -
  have p: "\<not> prefix ''GET /data'' referer_request" "\<not> prefix ''GET /calibrate'' referer_request"
    by (simp_all add: referer_request_def)
  have d: "bytes_in ''GET /data'' referer_request"
    by (simp add: referer_request_def CRLF_def)
  have r: "route referer_request demo_state =
      (Inr (json_response (last_targets demo_state)), demo_state)"
    using d by (rule route_data)
  show ?thesis
    using p r responses_distinct(2) by simp
qed

text \<open>
  Claim C10. When a buffer contains both \<open>GET /data\<close> and \<open>GET /calibrate\<close>, the
  JSON response is served and no calibration takes place: the driver's target list and
  the console stay as they were, and the handler writes that one response.
\<close>

theorem C10_data_precedence:
  assumes "bytes_in ''GET /data'' request" and "bytes_in ''GET /calibrate'' request"
  shows "route request m = (Inr (json_response (last_targets m)), m)
    \<and> json_response (last_targets m) \<noteq> calibrated_response
    \<and> radar_targets (snd (route request m)) = radar_targets m
    \<and> console (snd (route request m)) = console m
    \<and> (\<forall>c bs. inbound c = Inr bs \<and> take 1024 bs = request \<longrightarrow>
          fst (serve c m) = [Awrite (json_response (last_targets m)), Aclose]
          \<and> radar_targets (snd (serve c m)) = radar_targets m)"
proof -
  have r: "route request m = (Inr (json_response (last_targets m)), m)"
    using assms(1) by (rule route_data)
  have "fst (serve c m) = [Awrite (json_response (last_targets m)), Aclose]
      \<and> radar_targets (snd (serve c m)) = radar_targets m"
    if "inbound c = Inr bs" and "take 1024 bs = request" for c bs
    using that r
    by (simp add: serve_def handle_client_read_ok client_error_frame split: option.splits)
  then show ?thesis
    using r responses_distinct(1) by auto
qed

theorem C10_data_precedence_witness:
  "bytes_in ''GET /data'' both_request
   \<and> bytes_in ''GET /calibrate'' both_request
   \<and> route both_request demo_state = (Inr (json_response (last_targets demo_state)), demo_state)
   \<and> inbound (sending both_request) = Inr both_request
   \<and> take 1024 both_request = both_request
   \<and> serve (sending both_request) demo_state =
       ([Awrite (json_response (last_targets demo_state)), Aclose], demo_state)"
proof -
  have d: "bytes_in ''GET /data'' both_request" and c: "bytes_in ''GET /calibrate'' both_request"
    and t: "take 1024 both_request = both_request"
    by (simp_all add: both_request_def CRLF_def)
  have i: "inbound (sending both_request) = Inr both_request"
    by (simp add: sending_def)
  have m: "snd (serve (sending both_request) demo_state) = demo_state"
    using C10_data_precedence [OF d c, of demo_state] t
    by (simp add: serve_def sending_def handle_client_read_ok)
  have "fst (serve (sending both_request) demo_state) =
      [Awrite (json_response (last_targets demo_state)), Aclose]"
    using C10_data_precedence [OF d c, of demo_state] i t by blast
  with m have "serve (sending both_request) demo_state =
       ([Awrite (json_response (last_targets demo_state)), Aclose], demo_state)"
    by (simp add: prod_eq_iff)
  then show ?thesis
    using C10_data_precedence [OF d c, of demo_state] d c i t by simp
qed

subsection \<open>The sensor task and the published snapshot\<close>

text \<open>
  Claim C2. When the driver reports new data, the rebuilt snapshot holds exactly the
  transforms of the slots whose distance is strictly positive, in slot order: a slot
  contributes an entry if and only if its distance is above zero, the entries form a
  subsequence of the transformed slots, and readings that all have a distance of zero
  or less leave an empty snapshot.
\<close>

theorem C2_positive_distance_filter:
  "last_targets (snd (sensor_cycle (True, ts) m)) =
     map (\<lambda>i. to_display (ts ! i)) (filter (\<lambda>i. 0 < distance (ts ! i)) [0..<length ts])
   \<and> last_targets (snd (sensor_cycle (True, ts) m)) =
     map to_display (filter (\<lambda>t. 0 < distance t) ts)
   \<and> subseq (last_targets (snd (sensor_cycle (True, ts) m))) (map to_display ts)
   \<and> ((\<forall>t \<in> set ts. distance t \<le> 0) \<longrightarrow> last_targets (snd (sensor_cycle (True, ts) m)) = [])"
proof -
  have pub: "last_targets (snd (sensor_cycle (True, ts) m)) = rebuild ts"
    by (simp add: sensor_cycle_eq)
  have by_slot: "rebuild ts =
      map (\<lambda>i. to_display (ts ! i)) (filter (\<lambda>i. 0 < distance (ts ! i)) [0..<length ts])"
    by (rule rebuild_by_slot)
  have by_filter: "rebuild ts = map to_display (filter (\<lambda>t. 0 < distance t) ts)"
    by (rule rebuild_filter)
  have in_order: "subseq (rebuild ts) (map to_display ts)"
    by (rule rebuild_subseq)
  have none: "(\<forall>t \<in> set ts. distance t \<le> 0) \<longrightarrow> rebuild ts = []"
    unfolding by_filter by (auto simp: filter_empty_conv)
  show ?thesis
    unfolding pub by (intro conjI by_slot by_filter in_order none)
qed

theorem C2_positive_distance_filter_witness:
  "distance \<lparr>distance = 0, angle = 7, speed = 3\<rparr> \<le> 0
   \<and> distance \<lparr>distance = - 5, angle = 0, speed = 0\<rparr> \<le> 0
   \<and> last_targets (snd (sensor_cycle
        (True, [\<lparr>distance = 0, angle = 7, speed = 3\<rparr>, \<lparr>distance = - 5, angle = 0, speed = 0\<rparr>])
        demo_state)) = []
   \<and> last_targets (snd (sensor_cycle
        (True, [\<lparr>distance = 0, angle = 7, speed = 3\<rparr>, demo_reading,
                \<lparr>distance = 1500, angle = - 30, speed = - 12\<rparr>])
        demo_state)) =
       [[(''range'', 4), (''angle'', 123 / 10), (''speed'', 5 / 2)],
        [(''range'', 3 / 2), (''angle'', - 30), (''speed'', - 3 / 25)]]"
proof -
  have a: "to_display demo_reading = [(''range'', 4), (''angle'', 123 / 10), (''speed'', 5 / 2)]"
    by code_simp
  have b: "to_display \<lparr>distance = 1500, angle = - 30, speed = - 12\<rparr> =
      [(''range'', 3 / 2), (''angle'', - 30), (''speed'', - 3 / 25)]"
    by code_simp
  show ?thesis
    using C2_positive_distance_filter
        [of "[\<lparr>distance = 0, angle = 7, speed = 3\<rparr>, \<lparr>distance = - 5, angle = 0, speed = 0\<rparr>]"
            demo_state]
      C2_positive_distance_filter
        [of "[\<lparr>distance = 0, angle = 7, speed = 3\<rparr>, demo_reading,
              \<lparr>distance = 1500, angle = - 30, speed = - 12\<rparr>]" demo_state]
    by (simp add: a b) (simp add: demo_reading_def)
qed

text \<open>
  Claim C5. A turn of the sensor task in which the driver reports no new data leaves
  the published snapshot as it was, over any number of such turns; the snapshot
  differs after a turn only if the driver reported new data, and it is then the
  rebuilt list.
\<close>

theorem C5_no_new_data_keeps_snapshot:
  "(\<not> fst u \<longrightarrow> last_targets (snd (sensor_cycle u m)) = last_targets m)
   \<and> (last_targets (snd (sensor_cycle u m)) \<noteq> last_targets m \<longrightarrow> fst u)
   \<and> (fst u \<longrightarrow> last_targets (snd (sensor_cycle u m)) = rebuild (snd u))
   \<and> fst (sensor_cycle u m) = Inr ()
   \<and> ((\<forall>v \<in> set us. \<not> fst v) \<longrightarrow> last_targets (snd (sensor_task us m)) = last_targets m)"
proof -
  have quiet: "(\<forall>v \<in> set us. \<not> fst v) \<longrightarrow> last_targets (snd (sensor_task us m)) = last_targets m"
    using sensor_task_quiet [of us m] by blast
  show ?thesis
    using quiet by (simp add: sensor_cycle_eq)
qed

theorem C5_no_new_data_keeps_snapshot_witness:
  "\<not> fst (False, [] :: target_reading list)
   \<and> sensor_cycle (False, []) demo_state = (Inr (), demo_state\<lparr>radar_targets := []\<rparr>)
   \<and> last_targets (snd (sensor_cycle (False, []) demo_state)) = last_targets demo_state
   \<and> last_targets (snd (sensor_task [(False, []), (False, [demo_reading])] demo_state)) =
       [[(''range'', 4), (''angle'', 123 / 10), (''speed'', 5 / 2)]]
   \<and> fst (True, [] :: target_reading list)
   \<and> last_targets (snd (sensor_cycle (True, []) demo_state)) = []
   \<and> last_targets (snd (sensor_cycle (True, []) demo_state)) \<noteq> last_targets demo_state"
proof -
  have "last_targets demo_state = [[(''range'', 4), (''angle'', 123 / 10), (''speed'', 5 / 2)]]"
    by (simp add: demo_state_def)
  then show ?thesis
    using C5_no_new_data_keeps_snapshot [of "(False, [])" demo_state "[(False, []), (False, [demo_reading])]"]
      C5_no_new_data_keeps_snapshot [of "(True, [])" demo_state "[]"]
    by (simp add: sensor_cycle_eq)
qed

text \<open>
  Claim C4. Before the sensor task has published anything, that is after any events
  among which no turn of the sensor task had new data, the snapshot is the empty
  list, and a \<open>GET /data\<close> request is answered, without an exception, with the JSON
  body \<open>{"targets": []}\<close>.
\<close>

theorem C4_read_before_publish:
  assumes "\<forall>e \<in> set es. \<not> fresh_poll e" and "bytes_in ''GET /data'' request"
  shows "last_targets (snd (scheduler es (module_init ip page ts0))) = []
    \<and> route request (snd (scheduler es (module_init ip page ts0))) =
        (Inr empty_targets_response, snd (scheduler es (module_init ip page ts0)))
    \<and> (\<forall>bs. take 1024 bs = request \<longrightarrow>
          handle_client (sending bs) (snd (scheduler es (module_init ip page ts0)), []) =
            (Inr (), snd (scheduler es (module_init ip page ts0)),
             [Awrite empty_targets_response, Aclose]))"
proof -
  let ?m = "snd (scheduler es (module_init ip page ts0))"
  have "last_targets ?m = last_targets (module_init ip page ts0)"
    using scheduler_stale [OF assms(1)] by blast
  then have none: "last_targets ?m = []"
    by (simp add: module_init_def)
  have r: "route request ?m = (Inr empty_targets_response, ?m)"
    using route_data [OF assms(2), of ?m] none by (simp add: empty_json)
  have "handle_client (sending bs) (?m, []) =
      (Inr (), ?m, [Awrite empty_targets_response, Aclose])"
    if "take 1024 bs = request" for bs
    using that r by (simp add: handle_client_read_ok sending_def)
  then show ?thesis
    using none r by blast
qed

theorem C4_read_before_publish_witness:
  "\<not> fresh_poll (Poll (False, [demo_reading]))
   \<and> \<not> fresh_poll (Accept resetting)
   \<and> bytes_in ''GET /data'' data_request
   \<and> take 1024 data_request = data_request
   \<and> handle_client (sending data_request)
        (snd (scheduler [Poll (False, [demo_reading]), Accept resetting]
           (module_init ''192.168.4.1'' ''<html>radar</html>'' [])), []) =
       (Inr (),
        \<lparr>HTML = ''<html>radar</html>'', last_targets = [], radar_targets = [demo_reading],
         console = [''Connected to WiFi, IP: 192.168.4.1'', ''Client error: ECONNRESET'']\<rparr>,
        [Awrite empty_targets_response, Aclose])"
proof -
  have a: "\<forall>e \<in> set [Poll (False, [demo_reading]), Accept resetting]. \<not> fresh_poll e"
    by (simp add: fresh_poll_def)
  have t: "take 1024 data_request = data_request"
    by (simp add: data_request_def CRLF_def)
  have s: "snd (scheduler [Poll (False, [demo_reading]), Accept resetting]
           (module_init ''192.168.4.1'' ''<html>radar</html>'' [])) =
        \<lparr>HTML = ''<html>radar</html>'', last_targets = [], radar_targets = [demo_reading],
         console = [''Connected to WiFi, IP: 192.168.4.1'', ''Client error: ECONNRESET'']\<rparr>"
    by (simp add: sensor_cycle_eq serve_def handle_client_read_fault resetting_def
        module_init_def client_error_def print_def)
  have "handle_client (sending data_request)
        (snd (scheduler [Poll (False, [demo_reading]), Accept resetting]
           (module_init ''192.168.4.1'' ''<html>radar</html>'' [])), []) =
       (Inr (),
        snd (scheduler [Poll (False, [demo_reading]), Accept resetting]
           (module_init ''192.168.4.1'' ''<html>radar</html>'' [])),
        [Awrite empty_targets_response, Aclose])"
    using C4_read_before_publish [OF a sample_requests(1), of "''192.168.4.1''"
        "''<html>radar</html>''" "[]"] t
    by blast
  then have served: "handle_client (sending data_request)
        (snd (scheduler [Poll (False, [demo_reading]), Accept resetting]
           (module_init ''192.168.4.1'' ''<html>radar</html>'' [])), []) =
       (Inr (),
        \<lparr>HTML = ''<html>radar</html>'', last_targets = [], radar_targets = [demo_reading],
         console = [''Connected to WiFi, IP: 192.168.4.1'', ''Client error: ECONNRESET'']\<rparr>,
        [Awrite empty_targets_response, Aclose])"
    by (simp only: s)
  have quiet: "\<not> fresh_poll (Poll (False, [demo_reading]))" "\<not> fresh_poll (Accept resetting)"
    by (simp_all add: fresh_poll_def)
  show ?thesis
    by (intro conjI quiet sample_requests(1) t served)
qed

text \<open>
  Claim C6. Serving a \<open>GET /data\<close> request does not change the published snapshot, and
  a second \<open>GET /data\<close> request is answered with the same bytes as the first, whether
  it follows at once or after events among which no turn of the sensor task had new
  data.
\<close>

theorem C6_repeated_data_requests:
  assumes "inbound c1 = Inr bs1" and "bytes_in ''GET /data'' (take 1024 bs1)"
    and "inbound c2 = Inr bs2" and "bytes_in ''GET /data'' (take 1024 bs2)"
    and "\<forall>e \<in> set es. \<not> fresh_poll e"
  shows "fst (serve c1 m) = [Awrite (json_response (last_targets m)), Aclose]
    \<and> last_targets (snd (serve c1 m)) = last_targets m
    \<and> fst (serve c2 (snd (scheduler es (snd (serve c1 m))))) =
        [Awrite (json_response (last_targets m)), Aclose]
    \<and> fst (serve c2 (snd (serve c1 m))) = fst (serve c1 m)"
proof -
  let ?m1 = "snd (serve c1 m)"
  let ?m2 = "snd (scheduler es ?m1)"
  have first: "fst (serve c1 m) = [Awrite (json_response (last_targets m)), Aclose]"
    using serve_response [OF assms(1) route_data [OF assms(2)]] .
  have kept: "last_targets ?m1 = last_targets m"
    by (rule serve_frame)
  have "last_targets ?m2 = last_targets ?m1"
    using scheduler_stale [OF assms(5)] by blast
  with kept have later: "last_targets ?m2 = last_targets m" by simp
  have second: "fst (serve c2 ?m2) = [Awrite (json_response (last_targets m)), Aclose]"
    using serve_response [OF assms(3) route_data [OF assms(4)], of ?m2] later by simp
  have direct: "fst (serve c2 ?m1) = [Awrite (json_response (last_targets m)), Aclose]"
    using serve_response [OF assms(3) route_data [OF assms(4)], of ?m1] kept by simp
  show ?thesis
    using first kept second direct by simp
qed

theorem C6_repeated_data_requests_witness:
  "inbound (sending data_request) = Inr data_request
   \<and> bytes_in ''GET /data'' (take 1024 data_request)
   \<and> inbound (broken_pipe both_request) = Inr both_request
   \<and> bytes_in ''GET /data'' (take 1024 both_request)
   \<and> \<not> fresh_poll (Poll (False, []))
   \<and> \<not> fresh_poll (Accept (sending calibrate_request))
   \<and> fst (serve (sending data_request) demo_state) =
       [Awrite (json_response [[(''range'', 4), (''angle'', 123 / 10), (''speed'', 5 / 2)]]), Aclose]
   \<and> fst (serve (broken_pipe both_request)
        (snd (scheduler [Poll (False, []), Accept (sending calibrate_request)]
           (snd (serve (sending data_request) demo_state))))) =
       [Awrite (json_response [[(''range'', 4), (''angle'', 123 / 10), (''speed'', 5 / 2)]]), Aclose]"
proof -
  have i1: "inbound (sending data_request) = Inr data_request"
    by (simp add: sending_def)
  have i2: "inbound (broken_pipe both_request) = Inr both_request"
    by (simp add: broken_pipe_def)
  have d1: "bytes_in ''GET /data'' (take 1024 data_request)"
    by (simp add: data_request_def CRLF_def)
  have d2: "bytes_in ''GET /data'' (take 1024 both_request)"
    by (simp add: both_request_def CRLF_def)
  have q: "\<forall>e \<in> set [Poll (False, []), Accept (sending calibrate_request)]. \<not> fresh_poll e"
    by (simp add: fresh_poll_def)
  have q1: "\<not> fresh_poll (Poll (False, []))"
    and q2: "\<not> fresh_poll (Accept (sending calibrate_request))"
    by (simp_all add: fresh_poll_def)
  note main = C6_repeated_data_requests [OF i1 d1 i2 d2 q, of demo_state]
  have first: "fst (serve (sending data_request) demo_state) =
       [Awrite (json_response [[(''range'', 4), (''angle'', 123 / 10), (''speed'', 5 / 2)]]), Aclose]"
    using main by (simp only: demo_state_fields)
  have second: "fst (serve (broken_pipe both_request)
        (snd (scheduler [Poll (False, []), Accept (sending calibrate_request)]
           (snd (serve (sending data_request) demo_state))))) =
       [Awrite (json_response [[(''range'', 4), (''angle'', 123 / 10), (''speed'', 5 / 2)]]), Aclose]"
    using main by (simp only: demo_state_fields)
  show ?thesis
    by (intro conjI i1 i2 d1 d2 q1 q2 first second)
qed

subsection \<open>Calibration\<close>

text \<open>
  Claim C7. \<open>calibrate\<close> returns without an exception, leaves the driver's target
  list empty and does not touch the published snapshot. The snapshot stays the same
  through all later events until a turn of the sensor task has new data, and that turn
  publishes the list rebuilt from what the driver then holds. The same holds with the
  events that run while \<open>calibrate\<close> sleeps taken into account: the snapshot at its
  return is the one at its call unless a turn of the sensor task had new data
  meanwhile, and the driver's list is empty at its return unless the sensor task
  polled the driver meanwhile.
\<close>

theorem C7_calibrate_effect:
  "fst (calibrate m) = Inr ()
   \<and> radar_targets (snd (calibrate m)) = []
   \<and> last_targets (snd (calibrate m)) = last_targets m
   \<and> HTML (snd (calibrate m)) = HTML m
   \<and> console (snd (calibrate m)) =
       console m @ [''Calibration started...'', ''Calibration complete.'']
   \<and> ((\<forall>e \<in> set es. \<not> fresh_poll e) \<longrightarrow>
        last_targets (snd (scheduler es (snd (calibrate m)))) = last_targets m)
   \<and> last_targets (snd (sensor_cycle (True, ts) (snd (calibrate m)))) = rebuild ts
   \<and> calibrate_yielding [] = calibrate
   \<and> fst (calibrate_yielding es m) = Inr ()
   \<and> ((\<forall>e \<in> set es. \<not> fresh_poll e) \<longrightarrow>
        last_targets (snd (calibrate_yielding es m)) = last_targets m)
   \<and> ((\<forall>e \<in> set es. \<not> is_poll e) \<longrightarrow> radar_targets (snd (calibrate_yielding es m)) = [])"
proof -
  let ?cleared = "m\<lparr>console := console m @ [''Calibration started...''], radar_targets := []\<rparr>"
  have own: "fst (calibrate m) = Inr ()" "radar_targets (snd (calibrate m)) = []"
    "last_targets (snd (calibrate m)) = last_targets m" "HTML (snd (calibrate m)) = HTML m"
    "console (snd (calibrate m)) = console m @ [''Calibration started...'', ''Calibration complete.'']"
    by (simp_all add: calibrate_eq)
  have stale: "(\<forall>e \<in> set es. \<not> fresh_poll e) \<longrightarrow>
      last_targets (snd (scheduler es (snd (calibrate m)))) = last_targets m"
    using scheduler_stale [of es "snd (calibrate m)"] own(3) by auto
  have republish: "last_targets (snd (sensor_cycle (True, ts) (snd (calibrate m)))) = rebuild ts"
    by (simp add: sensor_cycle_eq)
  have returns: "fst (calibrate_yielding es m) = Inr ()"
    by (simp add: calibrate_yielding_eq print_def)
  have during: "(\<forall>e \<in> set es. \<not> fresh_poll e) \<longrightarrow>
      last_targets (snd (calibrate_yielding es m)) = last_targets m"
    using scheduler_stale [of es ?cleared]
    by (auto simp: calibrate_yielding_eq print_def)
  have empty: "(\<forall>e \<in> set es. \<not> is_poll e) \<longrightarrow> radar_targets (snd (calibrate_yielding es m)) = []"
    using scheduler_radar [of es ?cleared]
    by (auto simp: calibrate_yielding_eq print_def)
  show ?thesis
    by (intro conjI own stale republish calibrate_yielding_nothing returns during empty)
qed

theorem C7_calibrate_effect_witness:
  "radar_targets demo_state = [demo_reading]
   \<and> calibrate demo_state =
       (Inr (), demo_state\<lparr>radar_targets := [],
          console := [''Calibration started...'', ''Calibration complete.'']\<rparr>)
   \<and> \<not> fresh_poll (Poll (False, [demo_reading]))
   \<and> \<not> fresh_poll (Accept (sending data_request))
   \<and> last_targets (snd (scheduler [Poll (False, [demo_reading]), Accept (sending data_request)]
        (snd (calibrate demo_state)))) = [[(''range'', 4), (''angle'', 123 / 10), (''speed'', 5 / 2)]]
   \<and> last_targets (snd (calibrate_yielding [Poll (False, [demo_reading]), Accept (sending data_request)]
        demo_state)) = [[(''range'', 4), (''angle'', 123 / 10), (''speed'', 5 / 2)]]
   \<and> \<not> is_poll (Accept (sending data_request))
   \<and> radar_targets (snd (calibrate_yielding [Accept (sending data_request)] demo_state)) = []
   \<and> last_targets (snd (sensor_cycle (True, []) (snd (calibrate demo_state)))) = []"
proof -
  have a: "\<not> fresh_poll (Poll (False, [demo_reading]))"
    and b: "\<not> fresh_poll (Accept (sending data_request))"
    by (simp_all add: fresh_poll_def)
  have p: "\<not> is_poll (Accept (sending data_request))"
    by (simp add: is_poll_def)
  have c: "calibrate demo_state =
       (Inr (), demo_state\<lparr>radar_targets := [],
          console := [''Calibration started...'', ''Calibration complete.'']\<rparr>)"
    by (simp add: calibrate_eq) (simp add: demo_state_def)
  have d: "last_targets demo_state = [[(''range'', 4), (''angle'', 123 / 10), (''speed'', 5 / 2)]]"
    and e: "radar_targets demo_state = [demo_reading]"
    by (simp_all add: demo_state_def)
  note two = C7_calibrate_effect
      [of demo_state "[Poll (False, [demo_reading]), Accept (sending data_request)]" "[]"]
  note one = C7_calibrate_effect [of demo_state "[Accept (sending data_request)]" "[]"]
  have f: "last_targets (snd (scheduler [Poll (False, [demo_reading]), Accept (sending data_request)]
        (snd (calibrate demo_state)))) = [[(''range'', 4), (''angle'', 123 / 10), (''speed'', 5 / 2)]]"
    using two a b d by simp
  have g: "last_targets (snd (calibrate_yielding [Poll (False, [demo_reading]), Accept (sending data_request)]
        demo_state)) = [[(''range'', 4), (''angle'', 123 / 10), (''speed'', 5 / 2)]]"
    using two a b d by simp
  have h: "radar_targets (snd (calibrate_yielding [Accept (sending data_request)] demo_state)) = []"
    using one p by simp
  have i: "last_targets (snd (sensor_cycle (True, []) (snd (calibrate demo_state)))) = []"
    using one by simp
  show ?thesis
    by (intro conjI e c a b f g p h i)
qed

subsection \<open>Faults on a connection\<close>

text \<open>
  Claim C9. Whatever the read and the write do, the only exception that can leave the
  handler is one raised by the closing call itself; the handler's last call on the
  writer is the closing call, made exactly once, in every case. The published snapshot
  and the page are never changed by a handler. When the read raises, the module's
  state is unchanged but for the logged line; when the write raises, the state is the
  one that routing the request left, with the logged line. A connection handled next
  gets the same calls on its writer as if the earlier connection had not occurred, so
  a request that it sends is answered with the response that belongs to it.
\<close>

theorem C9_fault_containment:
  "fst (handle_client c (m, w)) = (case aclose_fault c of Some x \<Rightarrow> Inl x | None \<Rightarrow> Inr ())
   \<and> (\<exists>calls. snd (snd (handle_client c (m, w))) = w @ calls @ [Aclose] \<and> Aclose \<notin> set calls)
   \<and> last_targets (fst (snd (handle_client c (m, w)))) = last_targets m
   \<and> HTML (fst (snd (handle_client c (m, w)))) = HTML m
   \<and> (\<forall>e. inbound c = Inl e \<longrightarrow>
        snd (handle_client c (m, w)) = (snd (client_error e m), w @ [Aclose])
        \<and> radar_targets (snd (client_error e m)) = radar_targets m)
   \<and> (\<forall>bs e. inbound c = Inr bs \<and> awrite_fault c = Some e \<longrightarrow>
        fst (snd (handle_client c (m, w))) = snd (client_error e (snd (route (take 1024 bs) m))))
   \<and> fst (serve c' (snd (serve c m))) = fst (serve c' m)
   \<and> (\<forall>bs response m'. inbound c' = Inr bs \<and> route (take 1024 bs) m = (Inr response, m') \<longrightarrow>
        fst (serve c' (snd (serve c m))) = [Awrite response, Aclose])"
proof -
  have outcome: "fst (handle_client c (m, w)) =
      (case aclose_fault c of Some x \<Rightarrow> Inl x | None \<Rightarrow> Inr ())"
    by (rule handle_client_outcome)
  have closed: "\<exists>calls. snd (snd (handle_client c (m, w))) = w @ calls @ [Aclose] \<and> Aclose \<notin> set calls"
  proof (cases "inbound c")
    case (Inl e)
    then have "snd (snd (handle_client c (m, w))) = w @ [] @ [Aclose]"
      by (simp add: handle_client_read_fault)
    then show ?thesis by (intro exI [of _ "[]"]) simp
  next
    case (Inr bs)
    obtain resp m' where "route (take 1024 bs) m = (Inr resp, m')"
      using route_returns by blast
    with Inr have "snd (snd (handle_client c (m, w))) = w @ [Awrite resp] @ [Aclose]"
      by (simp add: handle_client_read_ok)
    then show ?thesis by (intro exI [of _ "[Awrite resp]"]) simp
  qed
  have kept: "last_targets (fst (snd (handle_client c (m, w)))) = last_targets m"
    and page: "HTML (fst (snd (handle_client c (m, w)))) = HTML m"
    using handle_client_frame [of c m w] by simp_all
  have read_fault: "\<forall>e. inbound c = Inl e \<longrightarrow>
        snd (handle_client c (m, w)) = (snd (client_error e m), w @ [Aclose])
        \<and> radar_targets (snd (client_error e m)) = radar_targets m"
    by (simp add: handle_client_read_fault client_error_frame)
  have "fst (snd (handle_client c (m, w))) = snd (client_error e (snd (route (take 1024 bs) m)))"
    if "inbound c = Inr bs" and "awrite_fault c = Some e" for bs e
  proof -
    obtain resp m' where r: "route (take 1024 bs) m = (Inr resp, m')"
      using route_returns by blast
    show ?thesis
      using that by (simp add: handle_client_read_ok [OF that(1) r] r)
  qed
  then have write_fault: "\<forall>bs e. inbound c = Inr bs \<and> awrite_fault c = Some e \<longrightarrow>
        fst (snd (handle_client c (m, w))) = snd (client_error e (snd (route (take 1024 bs) m)))"
    by blast
  have next_same: "fst (serve c' (snd (serve c m))) = fst (serve c' m)"
    by (rule serve_calls_cong) (rule serve_frame)+
  have next_served: "\<forall>bs response m'. inbound c' = Inr bs \<and> route (take 1024 bs) m = (Inr response, m') \<longrightarrow>
        fst (serve c' (snd (serve c m))) = [Awrite response, Aclose]"
    unfolding next_same by (auto intro: serve_response)
  show ?thesis
    by (intro conjI outcome closed kept page read_fault write_fault next_same next_served)
qed

theorem C9_fault_containment_witness:
  "inbound resetting = Inl (PyException ''ECONNRESET'')
   \<and> handle_client resetting (demo_state, []) =
       (Inr (), demo_state\<lparr>console := [''Client error: ECONNRESET'']\<rparr>, [Aclose])
   \<and> inbound (broken_pipe calibrate_request) = Inr calibrate_request
   \<and> awrite_fault (broken_pipe calibrate_request) = Some (PyException ''EPIPE'')
   \<and> handle_client (broken_pipe calibrate_request) (demo_state, []) =
       (Inr (),
        demo_state\<lparr>radar_targets := [],
          console := [''Calibration started...'', ''Calibration complete.'', ''Client error: EPIPE'']\<rparr>,
        [Awrite calibrated_response, Aclose])
   \<and> inbound (sending data_request) = Inr data_request
   \<and> route (take 1024 data_request) demo_state =
       (Inr (json_response (last_targets demo_state)), demo_state)
   \<and> fst (serve (sending data_request) (snd (serve resetting demo_state))) =
       [Awrite (json_response (last_targets demo_state)), Aclose]"
proof -
  have i: "inbound resetting = Inl (PyException ''ECONNRESET'')"
    and cl: "aclose_fault resetting = None"
    by (simp_all add: resetting_def)
  have j: "inbound (broken_pipe calibrate_request) = Inr calibrate_request"
    and k: "awrite_fault (broken_pipe calibrate_request) = Some (PyException ''EPIPE'')"
    and cl2: "aclose_fault (broken_pipe calibrate_request) = None"
    by (simp_all add: broken_pipe_def)
  have l: "inbound (sending data_request) = Inr data_request"
    by (simp add: sending_def)
  have t: "take 1024 data_request = data_request" "take 1024 calibrate_request = calibrate_request"
    by (simp_all add: data_request_def calibrate_request_def CRLF_def)
  have r: "route (take 1024 data_request) demo_state =
       (Inr (json_response (last_targets demo_state)), demo_state)"
    unfolding t by (rule route_data) (rule sample_requests)
  note reset = C9_fault_containment [of resetting demo_state "[]" "sending data_request"]
  note pipe = C9_fault_containment [of "broken_pipe calibrate_request" demo_state "[]" "resetting"]
  have a: "handle_client resetting (demo_state, []) =
       (Inr (), demo_state\<lparr>console := [''Client error: ECONNRESET'']\<rparr>, [Aclose])"
  proof -
    have "fst (handle_client resetting (demo_state, [])) = Inr ()"
      using reset cl by simp
    moreover have "snd (handle_client resetting (demo_state, [])) =
        (snd (client_error (PyException ''ECONNRESET'') demo_state), [] @ [Aclose])"
      using reset i by blast
    ultimately show ?thesis
      by (simp add: prod_eq_iff client_error_def print_def demo_state_fields)
  qed
  have cr: "route calibrate_request demo_state = (Inr calibrated_response, snd (calibrate demo_state))"
    by (rule route_calibrate) (rule sample_requests)+
  have b: "handle_client (broken_pipe calibrate_request) (demo_state, []) =
       (Inr (),
        demo_state\<lparr>radar_targets := [],
          console := [''Calibration started...'', ''Calibration complete.'', ''Client error: EPIPE'']\<rparr>,
        [Awrite calibrated_response, Aclose])"
  proof -
    have "fst (handle_client (broken_pipe calibrate_request) (demo_state, [])) = Inr ()"
      using pipe cl2 by simp
    moreover have "fst (snd (handle_client (broken_pipe calibrate_request) (demo_state, []))) =
        snd (client_error (PyException ''EPIPE'') (snd (route (take 1024 calibrate_request) demo_state)))"
      using pipe j k by blast
    moreover have "snd (snd (handle_client (broken_pipe calibrate_request) (demo_state, []))) =
        [Awrite calibrated_response, Aclose]"
      using handle_client_read_ok [OF j, of demo_state] cr t by simp
    ultimately show ?thesis
      by (simp add: prod_eq_iff t cr calibrate_eq client_error_def print_def demo_state_fields)
  qed
  have c: "fst (serve (sending data_request) (snd (serve resetting demo_state))) =
       [Awrite (json_response (last_targets demo_state)), Aclose]"
    using reset l r by blast
  show ?thesis
    by (intro conjI i a j k b l r c)
qed

end
